theory Spec2Isabelle
  imports Complex_Main "HOL-Library.Word"
begin

section \<open>Arrays and the external primitives of \<^verbatim>\<open>app.py\<close>\<close>

text \<open>
  \<^verbatim>\<open>app.py\<close> works on NumPy arrays of unsigned 8-bit samples. An array is its
  \<open>shape\<close> (\<open>[h, w]\<close> for a 2-D array, \<open>[h, w, c]\<close> for a 3-D one) and its
  pixels in row-major order, each pixel being the list of its channel samples.
\<close>

type_synonym uint8 = "8 word"
type_synonym pixel = "uint8 list"

record ndarray =
  shape :: "nat list"
  data :: "pixel list"

text \<open>The exceptions that the code can meet.\<close>

datatype py_error = CvError | ZeroDivisionError | OSError

text \<open>
  A JPEG stream as \<^verbatim>\<open>cv2.imencode\<close> produces it: the frame header stores the height
  and the width of the picture, the rest is the entropy-coded payload.
\<close>

record jpeg_buf =
  jb_height :: nat
  jb_width :: nat
  jb_payload :: "uint8 list"

text \<open>
  The sample values that OpenCV's resampling and JPEG codec compute, the choices that the
  later stages of its Canny detector make, and the bytes that Pillow's decoder and encoders
  read and write, are not code of this program. They are a parameter of the model: every
  function below that reaches one of them takes the record \<open>L\<close>, and the theorems hold
  for each value of it.
  \<^item> \<open>area_px a w h\<close>: the pixels of \<open>a\<close> resampled to \<open>w\<close> by \<open>h\<close> with
    \<^verbatim>\<open>INTER_AREA\<close>;
  \<^item> \<open>jpeg_payload a q\<close>: the JPEG payload of \<open>a\<close> at quality \<open>q\<close>, \<open>None\<close> when
    the encoder rejects the array;
  \<^item> \<open>jpeg_samples b\<close>: the BGR pixels decoded from a stream, \<open>None\<close> when the stream cannot
    be decoded;
  \<^item> \<open>blur_px a k s\<close>: the pixels of \<open>a\<close> after a Gaussian filter of kernel size \<open>k\<close>
    and sigma \<open>s\<close>, for the arguments other than those of the program (which are
    computed below);
  \<^item> \<open>canny_keeps a t1 t2 y x\<close>: whether the non-maximum suppression and the hysteresis
    of the Canny detector keep the pixel in row \<open>y\<close> and column \<open>x\<close> as an edge, given
    that its gradient magnitude is above the low threshold;
  \<^item> \<open>canny_px a t1 t2\<close>: the edge map of an array of several channels (the program
    passes a 2-D array, whose edge map is computed below);
  \<^item> \<open>pil_png a lvl\<close>: the PNG file of \<open>a\<close> at zlib level \<open>lvl\<close>;
  \<^item> \<open>pil_jpeg a q opt\<close>: the JPEG file of \<open>a\<close> at quality \<open>q\<close>, \<open>None\<close> when
    the encoder rejects the array;
  \<^item> \<open>pil_open bs\<close>: the array of the picture that Pillow reads from the bytes \<open>bs\<close> of
    a file that is not empty, \<open>None\<close> when it cannot open them.
\<close>

record cvlib =
  area_px :: "ndarray \<Rightarrow> nat \<Rightarrow> nat \<Rightarrow> pixel list"
  jpeg_payload :: "ndarray \<Rightarrow> int \<Rightarrow> uint8 list option"
  jpeg_samples :: "jpeg_buf \<Rightarrow> pixel list option"
  blur_px :: "ndarray \<Rightarrow> nat \<times> nat \<Rightarrow> int \<Rightarrow> pixel list"
  canny_keeps :: "ndarray \<Rightarrow> int \<Rightarrow> int \<Rightarrow> nat \<Rightarrow> nat \<Rightarrow> bool"
  canny_px :: "ndarray \<Rightarrow> int \<Rightarrow> int \<Rightarrow> pixel list"
  pil_png :: "ndarray \<Rightarrow> int \<Rightarrow> uint8 list"
  pil_jpeg :: "ndarray \<Rightarrow> int \<Rightarrow> bool \<Rightarrow> uint8 list option"
  pil_open :: "uint8 list \<Rightarrow> ndarray option"

subsection \<open>\<^verbatim>\<open>cv2.cvtColor\<close>\<close>

datatype color_code = COLOR_RGBA2RGB | COLOR_RGB2BGR | COLOR_BGR2RGB | COLOR_BGR2GRAY

text \<open>
  The 8-bit gray value of OpenCV 4: fixed-point weights of blue, green and red that add
  up to \<open>2 ^ 15\<close>, rounded by adding \<open>2 ^ 14\<close> before the shift. (OpenCV 3 has
  14-bit weights that add up to \<open>2 ^ 14\<close>.)
\<close>

definition gray_of :: "uint8 \<Rightarrow> uint8 \<Rightarrow> uint8 \<Rightarrow> uint8" where
  "gray_of b g r =
     of_nat ((unat b * 3735 + unat g * 19235 + unat r * 9798 + 16384) div 32768)"

fun cvt_pixel :: "color_code \<Rightarrow> pixel \<Rightarrow> pixel" where
  "cvt_pixel COLOR_RGBA2RGB px = take 3 px"
| "cvt_pixel COLOR_RGB2BGR px = rev (take 3 px)"
| "cvt_pixel COLOR_BGR2RGB px = rev (take 3 px)"
| "cvt_pixel COLOR_BGR2GRAY px = [gray_of (px ! 0) (px ! 1) (px ! 2)]"

text \<open>
  Each of the four conversions asks for a non-empty array of 3 or 4 channels and raises
  \<^verbatim>\<open>cv2.error\<close> on every other array, a 2-D one among them. The gray conversion
  returns a 2-D array, the others a 3-channel one.
\<close>

definition cv2_cvtColor :: "ndarray \<Rightarrow> color_code \<Rightarrow> py_error + ndarray" where
  "cv2_cvtColor src code =
     (case shape src of
        [h, w, c] \<Rightarrow>
          if 0 < h \<and> 0 < w \<and> (c = 3 \<or> c = 4)
          then Inr \<lparr>shape = (if code = COLOR_BGR2GRAY then [h, w] else [h, w, 3]),
                    data = map (cvt_pixel code) (data src)\<rparr>
          else Inl CvError
      | _ \<Rightarrow> Inl CvError)"

subsection \<open>\<^verbatim>\<open>cv2.resize\<close>, \<^verbatim>\<open>cv2.imencode\<close>, \<^verbatim>\<open>cv2.imdecode\<close>\<close>

text \<open>
  \<^verbatim>\<open>cv2.resize(src, (width, height), interpolation=cv2.INTER_AREA)\<close>: with no scale
  factors given, a target size with a component below 1 raises, as an empty source does.
  The result has \<open>height\<close> rows and \<open>width\<close> columns and the channels of the source
  (a 3-D array of one channel comes back 2-D).
\<close>

definition cv2_resize :: "cvlib \<Rightarrow> ndarray \<Rightarrow> int \<times> int \<Rightarrow> py_error + ndarray" where
  "cv2_resize L src dsize =
     (case dsize of (width, height) \<Rightarrow>
        (case shape src of
           h # w # cs \<Rightarrow>
             if 0 < h \<and> 0 < w \<and> 0 < width \<and> 0 < height \<and> length cs \<le> 1 \<and> 0 \<notin> set cs
             then Inr \<lparr>shape = nat height # nat width # (if cs = [1] then [] else cs),
                       data = area_px L src (nat width) (nat height)\<rparr>
             else Inl CvError
         | _ \<Rightarrow> Inl CvError))"

text \<open>
  \<^verbatim>\<open>cv2.imencode('.jpg', img, [cv2.IMWRITE_JPEG_QUALITY, q])\<close>: the stream of a
  non-empty array, or an error when the encoder rejects it.
\<close>

definition cv2_imencode_jpg :: "cvlib \<Rightarrow> ndarray \<Rightarrow> int \<Rightarrow> py_error + jpeg_buf" where
  "cv2_imencode_jpg L img q =
     (case shape img of
        h # w # cs \<Rightarrow>
          if 0 < h \<and> 0 < w \<and> length cs \<le> 1 \<and> 0 \<notin> set cs
          then (case jpeg_payload L img q of
                  None \<Rightarrow> Inl CvError
                | Some bs \<Rightarrow> Inr \<lparr>jb_height = h, jb_width = w, jb_payload = bs\<rparr>)
          else Inl CvError
      | _ \<Rightarrow> Inl CvError)"

text \<open>
  \<^verbatim>\<open>cv2.imdecode(buf, cv2.IMREAD_COLOR)\<close>: always a 3-channel BGR array of the size in
  the header; Python's \<^verbatim>\<open>None\<close> when the stream cannot be decoded.
\<close>

definition cv2_imdecode_color :: "cvlib \<Rightarrow> jpeg_buf \<Rightarrow> ndarray option" where
  "cv2_imdecode_color L buf =
     (case jpeg_samples L buf of
        None \<Rightarrow> None
      | Some px \<Rightarrow> Some \<lparr>shape = [jb_height buf, jb_width buf, 3], data = px\<rparr>)"

subsection \<open>\<^verbatim>\<open>cv2.GaussianBlur\<close> and \<^verbatim>\<open>cv2.Canny\<close>\<close>

text \<open>
  Both work on a window around each pixel. The pixels of a 2-D array are laid out row by
  row: \<open>grid h w f\<close> is the array whose pixel in row \<open>y\<close> and column \<open>x\<close> is \<open>f y x\<close>,
  and \<open>sample_at a y x\<close> reads the sample there. Outside the array the filter reads the
  mirror image without the border pixel (\<^verbatim>\<open>BORDER_REFLECT_101\<close>, OpenCV's default) and
  the detector's Sobel operator reads the nearest border pixel (\<^verbatim>\<open>BORDER_REPLICATE\<close>).
\<close>

definition grid :: "nat \<Rightarrow> nat \<Rightarrow> (nat \<Rightarrow> nat \<Rightarrow> 'a) \<Rightarrow> 'a list" where
  "grid h w f = map (\<lambda>i. f (i div w) (i mod w)) [0..<h * w]"

definition sample_at :: "ndarray \<Rightarrow> nat \<Rightarrow> nat \<Rightarrow> int" where
  "sample_at a y x = uint (data a ! (y * (shape a ! 1) + x) ! 0)"

definition reflect_101 :: "int \<Rightarrow> nat \<Rightarrow> nat" where
  "reflect_101 p n =
     (if n \<le> 1 then 0
      else let m = 2 * (int n - 1); q = p mod m in nat (if q < int n then q else m - q))"

definition replicate_border :: "int \<Rightarrow> nat \<Rightarrow> nat" where
  "replicate_border p n = nat (max 0 (min (int n - 1) p))"

text \<open>
  \<^verbatim>\<open>cv2.GaussianBlur(src, (5, 5), 0)\<close>: with a sigma that is not positive and a kernel size
  of 5, OpenCV takes the kernel from its table of small kernels, \<open>[1, 4, 6, 4, 1] / 16\<close>
  in each direction. On 8-bit samples the weighted sum of the 25 samples of the window,
  in 256ths, is rounded by adding one half.
\<close>

definition gauss5 :: "int list" where
  "gauss5 = [1, 4, 6, 4, 1]"

definition blur5_at :: "ndarray \<Rightarrow> nat \<Rightarrow> nat \<Rightarrow> uint8" where
  "blur5_at a y x =
     word_of_int
       ((sum_list (map (\<lambda>i. sum_list (map (\<lambda>j.
            gauss5 ! i * gauss5 ! j *
              sample_at a (reflect_101 (int y + int i - 2) (shape a ! 0))
                          (reflect_101 (int x + int j - 2) (shape a ! 1)))
          [0..<5])) [0..<5]) + 128) div 256)"

text \<open>
  The filter keeps the shape; the kernel sizes must be odd. The call of the program, on
  a 2-D array with the kernel size (5, 5) and sigma 0, is computed; the samples for other
  arguments are the parameter.
\<close>

definition cv2_GaussianBlur :: "cvlib \<Rightarrow> ndarray \<Rightarrow> nat \<times> nat \<Rightarrow> int \<Rightarrow> py_error + ndarray" where
  "cv2_GaussianBlur L src ksize sigma =
     (case shape src of
        h # w # cs \<Rightarrow>
          if 0 < h \<and> 0 < w \<and> odd (fst ksize) \<and> odd (snd ksize)
          then Inr \<lparr>shape = shape src,
                    data = (if cs = [] \<and> ksize = (5, 5) \<and> sigma = 0
                            then grid h w (\<lambda>y x. [blur5_at src y x])
                            else blur_px L src ksize sigma)\<rparr>
          else Inl CvError
      | _ \<Rightarrow> Inl CvError)"

text \<open>
  \<^verbatim>\<open>cv2.Canny(image, threshold1, threshold2)\<close> with the default aperture of 3 and the
  default L1 norm: the gradient of a pixel is given by the two 3 by 3 Sobel operators, its
  magnitude is the sum of their absolute values, and the smaller of the two thresholds is the
  low one. A pixel whose magnitude is not above the low threshold is never an edge; among
  the others the non-maximum suppression and the hysteresis decide. The edge map holds 255
  at an edge and 0 elsewhere.
\<close>

definition sobel_dx :: "ndarray \<Rightarrow> nat \<Rightarrow> nat \<Rightarrow> int" where
  "sobel_dx a y x =
     (let s = (\<lambda>dy dx. sample_at a (replicate_border (int y + dy) (shape a ! 0))
                                   (replicate_border (int x + dx) (shape a ! 1)))
      in (s (- 1) 1 + 2 * s 0 1 + s 1 1) - (s (- 1) (- 1) + 2 * s 0 (- 1) + s 1 (- 1)))"

definition sobel_dy :: "ndarray \<Rightarrow> nat \<Rightarrow> nat \<Rightarrow> int" where
  "sobel_dy a y x =
     (let s = (\<lambda>dy dx. sample_at a (replicate_border (int y + dy) (shape a ! 0))
                                   (replicate_border (int x + dx) (shape a ! 1)))
      in (s 1 (- 1) + 2 * s 1 0 + s 1 1) - (s (- 1) (- 1) + 2 * s (- 1) 0 + s (- 1) 1))"

definition grad_mag :: "ndarray \<Rightarrow> nat \<Rightarrow> nat \<Rightarrow> int" where
  "grad_mag a y x = \<bar>sobel_dx a y x\<bar> + \<bar>sobel_dy a y x\<bar>"

definition cv2_Canny :: "cvlib \<Rightarrow> ndarray \<Rightarrow> int \<Rightarrow> int \<Rightarrow> py_error + ndarray" where
  "cv2_Canny L img threshold1 threshold2 =
     (case shape img of
        h # w # cs \<Rightarrow>
          if 0 < h \<and> 0 < w
          then Inr \<lparr>shape = [h, w],
                    data = (if cs = []
                            then grid h w (\<lambda>y x.
                                   if min threshold1 threshold2 < grad_mag img y x \<and>
                                      canny_keeps L img threshold1 threshold2 y x
                                   then [255] else [0])
                            else canny_px L img threshold1 threshold2)\<rparr>
          else Inl CvError
      | _ \<Rightarrow> Inl CvError)"

section \<open>\<^verbatim>\<open>convert_to_cv2\<close>\<close>

text \<open>
  The Pillow image is given by the array that \<^verbatim>\<open>np.array(pil_img)\<close> returns. An
  exception of either conversion is caught and turned into \<^verbatim>\<open>None\<close>.
\<close>

definition convert_to_cv2 :: "ndarray \<Rightarrow> ndarray option" where
  "convert_to_cv2 numpy_img =
     (case (if length (shape numpy_img) = 3 \<and> shape numpy_img ! 2 = 4
            then cv2_cvtColor numpy_img COLOR_RGBA2RGB
            else Inr numpy_img) of
        Inl e \<Rightarrow> None
      | Inr rgb \<Rightarrow>
          (case cv2_cvtColor rgb COLOR_RGB2BGR of
             Inl e \<Rightarrow> None
           | Inr opencv_img \<Rightarrow> Some opencv_img))"

section \<open>\<^verbatim>\<open>process_image\<close>\<close>

text \<open>
  Python's \<^verbatim>\<open>int(a / b)\<close> for integers \<open>a\<close> and a positive \<open>b\<close>: the quotient
  truncated towards zero. (The float quotient is the correctly rounded one, so truncating
  it gives this value for every size an array can have.)
\<close>

definition py_int_quot :: "int \<Rightarrow> int \<Rightarrow> int" where
  "py_int_quot a b = (if 0 \<le> a then a div b else - ((- a) div b))"

text \<open>
  The function returns a pair \<^verbatim>\<open>(processed, display)\<close>, or \<^verbatim>\<open>(None, None)\<close> for an
  unknown option and after any exception; the pair of \<^verbatim>\<open>None\<close> is \<open>None\<close> here.
  (Where \<^verbatim>\<open>shape[1]\<close> would raise on a shape of fewer than two entries, the resize
  that follows raises on that shape as well, so the result is \<open>None\<close> either way.)
\<close>

definition process_image ::
  "cvlib \<Rightarrow> ndarray \<Rightarrow> string \<Rightarrow> int \<Rightarrow> int \<Rightarrow> int \<Rightarrow> int \<Rightarrow> int \<Rightarrow> (ndarray \<times> ndarray) option" where
  "process_image L cv2_image transform_option resize_percent edge_low edge_high
       compression_quality jpeg_quality =
     (if transform_option = ''Resized'' then
        (if resize_percent \<noteq> 100 then
           (let width = py_int_quot (int (shape cv2_image ! 1) * resize_percent) 100;
                height = py_int_quot (int (shape cv2_image ! 0) * resize_percent) 100
            in case cv2_resize L cv2_image (width, height) of
                 Inl e \<Rightarrow> None
               | Inr resized \<Rightarrow>
                   (case cv2_imencode_jpg L resized jpeg_quality of
                      Inl e \<Rightarrow> None
                    | Inr encoded \<Rightarrow>
                        (case cv2_imdecode_color L encoded of
                           None \<Rightarrow> None
                         | Some processed \<Rightarrow>
                             (case cv2_cvtColor processed COLOR_BGR2RGB of
                                Inl e \<Rightarrow> None
                              | Inr display \<Rightarrow> Some (processed, display)))))
         else
           (case cv2_cvtColor cv2_image COLOR_BGR2RGB of
              Inl e \<Rightarrow> None
            | Inr display \<Rightarrow> Some (cv2_image, display)))
      else if transform_option = ''Grayscale'' then
        (case cv2_cvtColor cv2_image COLOR_BGR2GRAY of
           Inl e \<Rightarrow> None
         | Inr processed \<Rightarrow> Some (processed, processed))
      else if transform_option = ''Edge Detection'' then
        (case cv2_cvtColor cv2_image COLOR_BGR2GRAY of
           Inl e \<Rightarrow> None
         | Inr gray \<Rightarrow>
             (case cv2_GaussianBlur L gray (5, 5) 0 of
                Inl e \<Rightarrow> None
              | Inr blurred \<Rightarrow>
                  (case cv2_Canny L blurred edge_low edge_high of
                     Inl e \<Rightarrow> None
                   | Inr processed \<Rightarrow> Some (processed, processed))))
      else None)"

section \<open>The page: encoding, size report and download\<close>

text \<open>
  \<^verbatim>\<open>Image.save(buf, format=..., **params)\<close> hands the keyword arguments to the writer
  of the format, which looks up the keys it knows and ignores the others. Pillow's PNG
  writer reads \<^verbatim>\<open>optimize\<close> and \<^verbatim>\<open>compress_level\<close> (default \<open>-1\<close>, zlib's own
  default); with \<^verbatim>\<open>optimize\<close> set, the zlib level is 9 whatever \<^verbatim>\<open>compress_level\<close>
  says. The JPEG writer reads \<^verbatim>\<open>quality\<close> (default \<open>-1\<close>) and \<^verbatim>\<open>optimize\<close>.
\<close>

datatype image_format = PNG | JPEG

datatype kwarg = KInt int | KBool bool

definition kw_int :: "(string \<times> kwarg) list \<Rightarrow> string \<Rightarrow> int \<Rightarrow> int" where
  "kw_int params k dflt = (case map_of params k of Some (KInt n) \<Rightarrow> n | _ \<Rightarrow> dflt)"

definition kw_bool :: "(string \<times> kwarg) list \<Rightarrow> string \<Rightarrow> bool" where
  "kw_bool params k = (case map_of params k of Some (KBool b) \<Rightarrow> b | _ \<Rightarrow> False)"

definition pil_save ::
  "cvlib \<Rightarrow> ndarray \<Rightarrow> image_format \<Rightarrow> (string \<times> kwarg) list \<Rightarrow> py_error + uint8 list" where
  "pil_save L arr fmt params =
     (case fmt of
        PNG \<Rightarrow>
          Inr (pil_png L arr
                 (if kw_bool params ''optimize'' then 9 else kw_int params ''compress_level'' (- 1)))
      | JPEG \<Rightarrow>
          (case pil_jpeg L arr (kw_int params ''quality'' (- 1)) (kw_bool params ''optimize'') of
             None \<Rightarrow> Inl OSError
           | Some bs \<Rightarrow> Inr bs))"

text \<open>
  Lines 122 to 137 of \<^verbatim>\<open>main\<close>: the buffer that is offered for download, with the
  format that was written into it.
\<close>

definition encode_processed ::
  "cvlib \<Rightarrow> ndarray \<Rightarrow> int \<Rightarrow> int \<Rightarrow> py_error + image_format \<times> uint8 list" where
  "encode_processed L processed_img compression_quality jpeg_quality =
     (if length (shape processed_img) = 2 then
        (case pil_save L processed_img PNG
                [(''optimize'', KBool True), (''compression_level'', KInt compression_quality)] of
           Inl e \<Rightarrow> Inl e
         | Inr buf \<Rightarrow> Inr (PNG, buf))
      else
        (case cv2_cvtColor processed_img COLOR_BGR2RGB of
           Inl e \<Rightarrow> Inl e
         | Inr rgb \<Rightarrow>
             (case pil_save L rgb JPEG
                     [(''quality'', KInt jpeg_quality), (''optimize'', KBool True)] of
                Inl e \<Rightarrow> Inl e
              | Inr buf \<Rightarrow> Inr (JPEG, buf))))"

text \<open>
  Sizes are Python floats; a byte count divided by \<open>2 ^ 20\<close> is exact in a float, so the
  size is zero exactly for an empty buffer. The quotients are taken in the rationals.
\<close>

definition get_file_size :: "uint8 list \<Rightarrow> rat" where
  "get_file_size buf = of_nat (length buf) / (1024 * 1024)"

definition py_truediv :: "rat \<Rightarrow> rat \<Rightarrow> py_error + rat" where
  "py_truediv a b = (if b = 0 then Inl ZeroDivisionError else Inr (a / b))"

text \<open>The expression of line 142.\<close>

definition size_reduction :: "rat \<Rightarrow> rat \<Rightarrow> py_error + rat" where
  "size_reduction original_size processed_size =
     (case py_truediv (original_size - processed_size) original_size of
        Inl e \<Rightarrow> Inl e
      | Inr q \<Rightarrow> Inr (q * 100))"

text \<open>\<^verbatim>\<open>str.lower\<close> on the ASCII letters.\<close>

definition lower_char :: "char \<Rightarrow> char" where
  "lower_char c =
     (let n = (of_char c :: nat) in if 65 \<le> n \<and> n \<le> 90 then char_of (n + 32) else c)"

definition py_lower :: "string \<Rightarrow> string" where
  "py_lower s = map lower_char s"

text \<open>
  \<^verbatim>\<open>Image.open\<close> identifies a file by its first bytes, so it raises on an empty file
  whatever the decoders are; for other files the parameter decides. The image is given
  by the array that \<^verbatim>\<open>np.array\<close> makes of it.
\<close>

definition Image_open :: "cvlib \<Rightarrow> uint8 list \<Rightarrow> py_error + ndarray" where
  "Image_open L fp =
     (if fp = [] then Inl OSError
      else case pil_open L fp of None \<Rightarrow> Inl OSError | Some img \<Rightarrow> Inr img)"

definition load_image :: "cvlib \<Rightarrow> uint8 list \<Rightarrow> ndarray option" where
  "load_image L image_file =
     (case Image_open L image_file of Inl e \<Rightarrow> None | Inr img \<Rightarrow> Some img)"

record controls =
  transform_option :: string
  resize_percent :: int
  edge_low :: int
  edge_high :: int
  compression_quality :: int
  jpeg_quality :: int

record download_button =
  dl_data :: "uint8 list"
  file_name :: string
  mime :: string

record page =
  display_img :: ndarray
  saved_as :: image_format
  processed_size :: rat
  reduction :: rat
  download :: download_button

text \<open>
  What a run of \<^verbatim>\<open>main\<close> ends with: nothing uploaded, one of the three caught failures
  (the page shows the error message only), an exception that nothing catches, or the page
  with the processed image, the two sizes and the download button.
  The widgets, the layout and the formatting of the numbers are left out; the values of
  the sliders and of the select box are the record \<open>controls\<close>.
\<close>

datatype outcome =
  Idle | LoadFailed | ConvertFailed | ProcessFailed | Raised py_error | Done page

definition main :: "cvlib \<Rightarrow> uint8 list option \<Rightarrow> controls \<Rightarrow> outcome" where
  "main L uploaded_file c =
     (case uploaded_file of
        None \<Rightarrow> Idle
      | Some bytes \<Rightarrow>
          (let original_size = of_nat (length bytes) / (1024 * 1024)
           in case load_image L bytes of
                None \<Rightarrow> LoadFailed
              | Some pil_image \<Rightarrow>
                  (case convert_to_cv2 pil_image of
                     None \<Rightarrow> ConvertFailed
                   | Some cv2_image \<Rightarrow>
                       (case process_image L cv2_image (transform_option c) (resize_percent c)
                               (edge_low c) (edge_high c) (compression_quality c) (jpeg_quality c) of
                          None \<Rightarrow> ProcessFailed
                        | Some (processed_img, display) \<Rightarrow>
                            (case encode_processed L processed_img (compression_quality c)
                                    (jpeg_quality c) of
                               Inl e \<Rightarrow> Raised e
                             | Inr (fmt, buf) \<Rightarrow>
                                 (case size_reduction original_size (get_file_size buf) of
                                    Inl e \<Rightarrow> Raised e
                                  | Inr r \<Rightarrow>
                                      Done \<lparr>display_img = display, saved_as = fmt,
                                            processed_size = get_file_size buf, reduction = r,
                                            download =
                                              \<lparr>dl_data = buf,
                                               file_name =
                                                 ''processed_'' @ py_lower (transform_option c) @ ''.jpg'',
                                               mime = ''image/jpeg''\<rparr>\<rparr>))))))"

section \<open>A library instance for running the model\<close>

text \<open>
  To evaluate the functions on concrete inputs the parameter needs a value. This one
  writes zero samples where it resamples or decodes, keeps every pixel above the low
  threshold as an edge, and stores the zlib level or the quality as the single byte of a
  file.
\<close>

definition blank_lib :: cvlib where
  "blank_lib =
     \<lparr>area_px = (\<lambda>a w h. replicate (w * h) [0, 0, 0]),
      jpeg_payload = (\<lambda>a q. Some [word_of_int q]),
      jpeg_samples = (\<lambda>b. Some (replicate (jb_height b * jb_width b) [0, 0, 0])),
      blur_px = (\<lambda>a k s. data a),
      canny_keeps = (\<lambda>a t1 t2 y x. True),
      canny_px = (\<lambda>a t1 t2. replicate (length (data a)) [0]),
      pil_png = (\<lambda>a lvl. [word_of_int lvl]),
      pil_jpeg = (\<lambda>a q opt. Some [word_of_int q]),
      pil_open = (\<lambda>bs. Some \<lparr>shape = [1, 1, 3], data = [take 3 (bs @ [0, 0, 0])]\<rparr>)\<rparr>"

section \<open>Notions of the specification\<close>

text \<open>
  The gray value in the words of the specification (section 4.2): the weighted sum of
  red, green and blue with the perceptual weights, rounded and clamped to \<open>[0, 255]\<close>.
  It is compared with \<open>gray_of\<close>, the value that the program computes.
\<close>

definition luma_weighted :: "uint8 \<Rightarrow> uint8 \<Rightarrow> uint8 \<Rightarrow> uint8" where
  "luma_weighted r g b =
     word_of_int (min 255 (max 0 (round
       (299 / 1000 * of_nat (unat r) + 587 / 1000 * of_nat (unat g)
          + 114 / 1000 * of_nat (unat b) :: rat))))"

section \<open>The primitives, case by case\<close>

lemma cvtColor_Inr:
  assumes "cv2_cvtColor a code = Inr b"
  shows "\<exists>h w c. shape a = [h, w, c] \<and> 0 < h \<and> 0 < w \<and> (c = 3 \<or> c = 4) \<and>
           b = \<lparr>shape = (if code = COLOR_BGR2GRAY then [h, w] else [h, w, 3]),
                data = map (cvt_pixel code) (data a)\<rparr>"
  using assms unfolding cv2_cvtColor_def
  by (auto split: list.splits if_splits)

lemma cvtColor_canonical:
  assumes "shape B = [h, w, 3]" "0 < h" "0 < w"
  shows "cv2_cvtColor B code =
           Inr \<lparr>shape = (if code = COLOR_BGR2GRAY then [h, w] else [h, w, 3]),
                data = map (cvt_pixel code) (data B)\<rparr>"
  using assms by (simp add: cv2_cvtColor_def)

lemma resize_Inr:
  assumes "cv2_resize L src (width, height) = Inr r"
  shows "\<exists>h w cs. shape src = h # w # cs \<and> 0 < h \<and> 0 < w \<and> 0 < width \<and> 0 < height \<and>
           r = \<lparr>shape = nat height # nat width # (if cs = [1] then [] else cs),
                data = area_px L src (nat width) (nat height)\<rparr>"
  using assms unfolding cv2_resize_def
  by (auto split: list.splits if_splits)

lemma imencode_Inr:
  assumes "cv2_imencode_jpg L img q = Inr e"
  shows "jb_height e = shape img ! 0 \<and> jb_width e = shape img ! 1"
  using assms unfolding cv2_imencode_jpg_def
  by (auto split: list.splits if_splits option.splits)

lemma imdecode_Some:
  assumes "cv2_imdecode_color L e = Some out"
  shows "shape out = [jb_height e, jb_width e, 3]"
  using assms unfolding cv2_imdecode_color_def
  by (auto split: option.splits)

lemma process_resized_Some:
  assumes "p \<noteq> 100" "process_image L B ''Resized'' p lo hi cq jq = Some (out, d)"
  shows "\<exists>resized encoded.
           cv2_resize L B (py_int_quot (int (shape B ! 1) * p) 100,
                           py_int_quot (int (shape B ! 0) * p) 100) = Inr resized \<and>
           cv2_imencode_jpg L resized jq = Inr encoded \<and>
           cv2_imdecode_color L encoded = Some out \<and>
           cv2_cvtColor out COLOR_BGR2RGB = Inr d"
  using assms unfolding process_image_def
  by (simp add: Let_def split: sum.splits option.splits)

lemma convert_to_cv2_Some:
  assumes "convert_to_cv2 a = Some b"
  shows "\<exists>h w c. shape a = [h, w, c] \<and> 0 < h \<and> 0 < w \<and> (c = 3 \<or> c = 4) \<and> shape b = [h, w, 3]"
  using assms unfolding convert_to_cv2_def
  by (auto split: sum.splits if_splits dest!: cvtColor_Inr)


lemma process_grayscale_Some:
  assumes "process_image L B ''Grayscale'' p lo hi cq jq = Some (out, d)"
  shows "length (shape out) = 2"
  using assms unfolding process_image_def
  by (auto split: sum.splits dest!: cvtColor_Inr)

lemma process_edge_Some:
  assumes "process_image L B ''Edge Detection'' p lo hi cq jq = Some (out, d)"
  shows "length (shape out) = 2"
  using assms unfolding process_image_def cv2_Canny_def
  by (auto split: sum.splits list.splits if_splits)

lemma encode_processed_2d:
  assumes "length (shape g) = 2"
  shows "encode_processed L g cq jq = Inr (PNG, pil_png L g 9)"
  using assms by (simp add: encode_processed_def pil_save_def kw_bool_def)

lemma main_Done:
  assumes "main L (Some bs) c = Done pg"
  shows "\<exists>pil_image cv2_image processed_img fmt buf r.
           load_image L bs = Some pil_image \<and>
           convert_to_cv2 pil_image = Some cv2_image \<and>
           process_image L cv2_image (transform_option c) (resize_percent c)
             (edge_low c) (edge_high c) (compression_quality c) (jpeg_quality c)
             = Some (processed_img, display_img pg) \<and>
           encode_processed L processed_img (compression_quality c) (jpeg_quality c)
             = Inr (saved_as pg, dl_data (download pg)) \<and>
           size_reduction (of_nat (length bs) / (1024 * 1024))
             (get_file_size (dl_data (download pg))) = Inr (reduction pg) \<and>
           processed_size pg = get_file_size (dl_data (download pg)) \<and>
           file_name (download pg) = ''processed_'' @ py_lower (transform_option c) @ ''.jpg'' \<and>
           mime (download pg) = ''image/jpeg''"
  using assms unfolding main_def
  by (auto simp: Let_def split: option.splits sum.splits prod.splits)

lemma gray_of_solid: "gray_of v v v = v"
proof -
  have "(unat v * 3735 + unat v * 19235 + unat v * 9798 + 16384) div 32768 = unat v"
    by simp
  then show ?thesis by (simp add: gray_of_def)
qed

lemma luma_weighted_solid: "luma_weighted v v v = v"
proof -
  have s: "(299 / 1000 * of_nat (unat v) + 587 / 1000 * of_nat (unat v)
          + 114 / 1000 * of_nat (unat v) :: rat) = of_int (uint v)"
    by simp
  have b: "uint v \<le> 255"
    using unsigned_less [of v, where ?'a = int] by simp
  show ?thesis
    unfolding luma_weighted_def s round_of_int using b by simp
qed

subsection \<open>Windows on an array of one colour\<close>

lemma reflect_101_less: "0 < n \<Longrightarrow> reflect_101 p n < n"
proof -
  assume n: "0 < n"
  show ?thesis
  proof (cases "n \<le> 1")
    case True
    with n show ?thesis by (simp add: reflect_101_def)
  next
    case False
    then have "0 \<le> p mod (2 * (int n - 1))" "p mod (2 * (int n - 1)) < 2 * (int n - 1)"
      by simp_all
    with False show ?thesis
      by (auto simp: reflect_101_def Let_def)
  qed
qed

lemma replicate_border_less: "0 < n \<Longrightarrow> replicate_border p n < n"
  by (auto simp: replicate_border_def)

lemma grid_index_less: "y < h \<Longrightarrow> x < w \<Longrightarrow> y * w + x < h * (w::nat)"
proof -
  assume "y < h" "x < w"
  then have "y * w + x < y * w + w" by simp
  also have "\<dots> = Suc y * w" by simp
  also from \<open>y < h\<close> have "\<dots> \<le> h * w" by (intro mult_le_mono1) simp
  finally show ?thesis .
qed

lemma grid_const: "grid h w (\<lambda>y x. c) = replicate (h * w) c"
  by (simp add: grid_def map_replicate_const)

lemma set_grid: "p \<in> set (grid h w f) \<Longrightarrow> \<exists>y x. p = f y x"
  by (auto simp: grid_def)

lemma sample_at_solid:
  assumes "shape a = [h, w]" "data a = replicate (h * w) [g]" "y < h" "x < w"
  shows "sample_at a y x = uint g"
  using assms grid_index_less [of y h x w] by (simp add: sample_at_def)

lemma blur5_at_solid:
  assumes "shape a = [h, w]" "data a = replicate (h * w) [g]" "0 < h" "0 < w"
  shows "blur5_at a y x = g"
proof -
  have s: "sample_at a (reflect_101 p h) (reflect_101 q w) = uint g" for p q
    using assms by (intro sample_at_solid [of a h w]) (simp_all add: reflect_101_less)
  have "[0..<5] = [0, 1, 2, 3, 4::nat]" by (simp add: upt_rec)
  then have "blur5_at a y x = word_of_int ((256 * uint g + 128) div 256)"
    using assms(1) by (simp add: blur5_at_def s gauss5_def)
  also have "(256 * uint g + 128) div 256 = uint g" by simp
  finally show ?thesis by simp
qed

lemma grad_mag_solid:
  assumes "shape a = [h, w]" "data a = replicate (h * w) [g]" "0 < h" "0 < w"
  shows "grad_mag a y x = 0"
proof -
  have s: "sample_at a (replicate_border p h) (replicate_border q w) = uint g" for p q
    using assms by (intro sample_at_solid [of a h w]) (simp_all add: replicate_border_less)
  show ?thesis
    using assms(1) by (simp add: grad_mag_def sobel_dx_def sobel_dy_def s)
qed

subsection \<open>Runs of the model on concrete inputs\<close>

lemma py_lower_options:
  "py_lower ''Resized'' = ''resized''"
  "py_lower ''Grayscale'' = ''grayscale''"
  "py_lower ''Edge Detection'' = ''edge detection''"
  by code_simp+

lemma main_grayscale_run:
  "main blank_lib (Some [10, 20, 30])
     \<lparr>transform_option = ''Grayscale'', resize_percent = 100, edge_low = 100,
      edge_high = 200, compression_quality = 0, jpeg_quality = 85\<rparr>
   = Done \<lparr>display_img = \<lparr>shape = [1, 1], data = [[gray_of 30 20 10]]\<rparr>, saved_as = PNG,
           processed_size = 1 / 1048576, reduction = 200 / 3,
           download = \<lparr>dl_data = [9], file_name = ''processed_grayscale.jpg'',
                       mime = ''image/jpeg''\<rparr>\<rparr>"
  by (simp add: main_def load_image_def Image_open_def blank_lib_def convert_to_cv2_def
      cv2_cvtColor_def process_image_def encode_processed_def pil_save_def kw_bool_def
      kw_int_def size_reduction_def py_truediv_def get_file_size_def py_lower_options)

lemma resize_run_steps:
  "cv2_resize blank_lib \<lparr>shape = [5, 4, 3], data = replicate 20 [7, 7, 7]\<rparr> (2, 2)
     = Inr \<lparr>shape = [2, 2, 3], data = replicate 4 [0, 0, 0]\<rparr>"
  "cv2_imencode_jpg blank_lib \<lparr>shape = [2, 2, 3], data = replicate 4 [0, 0, 0]\<rparr> 85
     = Inr \<lparr>jb_height = 2, jb_width = 2, jb_payload = [85]\<rparr>"
  "cv2_imdecode_color blank_lib \<lparr>jb_height = 2, jb_width = 2, jb_payload = [85]\<rparr>
     = Some \<lparr>shape = [2, 2, 3], data = replicate 4 [0, 0, 0]\<rparr>"
  "cv2_cvtColor \<lparr>shape = [2, 2, 3], data = replicate 4 [0, 0, 0]\<rparr> COLOR_BGR2RGB
     = Inr \<lparr>shape = [2, 2, 3], data = replicate 4 [0, 0, 0]\<rparr>"
  by (simp_all add: cv2_resize_def cv2_imencode_jpg_def cv2_imdecode_color_def
      cv2_cvtColor_def blank_lib_def)

lemma resize_run:
  "process_image blank_lib \<lparr>shape = [5, 4, 3], data = replicate 20 [7, 7, 7]\<rparr>
      ''Resized'' 50 100 200 6 85
     = Some (\<lparr>shape = [2, 2, 3], data = replicate 4 [0, 0, 0]\<rparr>,
             \<lparr>shape = [2, 2, 3], data = replicate 4 [0, 0, 0]\<rparr>)"
  by (simp add: process_image_def py_int_quot_def resize_run_steps)

lemma edge_run_step:
  "process_image blank_lib \<lparr>shape = [1, 3, 3], data = [[0, 0, 0], [0, 0, 0], [255, 255, 255]]\<rparr>
       ''Edge Detection'' 100 200 250 6 85
     = Some (\<lparr>shape = [1, 3], data = [[0], [255], [0]]\<rparr>,
             \<lparr>shape = [1, 3], data = [[0], [255], [0]]\<rparr>)"
  by (simp add: process_image_def cv2_cvtColor_def cv2_GaussianBlur_def cv2_Canny_def grid_def
      gray_of_def blur5_at_def upt_rec gauss5_def sample_at_def reflect_101_def grad_mag_def
      sobel_dx_def sobel_dy_def replicate_border_def blank_lib_def)

section \<open>Properties\<close>

text \<open>
  C9. A source image that decodes to a 2-D (single-channel) array is not converted:
  \<^verbatim>\<open>convert_to_cv2\<close> returns \<^verbatim>\<open>None\<close> for it, because the RGB to BGR conversion
  asks for 3 or 4 channels. Only an array of 3 or 4 channels becomes a bitmap, and the
  bitmap has 3 channels and the height and width of the source.
\<close>

theorem convert_to_cv2_channels:
  "(length (shape a) = 2 \<longrightarrow>
      cv2_cvtColor a COLOR_RGB2BGR = Inl CvError \<and> convert_to_cv2 a = None) \<and>
   (\<forall>b. convert_to_cv2 a = Some b \<longrightarrow>
      length (shape a) = 3 \<and> (shape a ! 2 = 3 \<or> shape a ! 2 = 4) \<and>
      shape b = [shape a ! 0, shape a ! 1, 3])"
proof -
  have "convert_to_cv2 a = None" if "length (shape a) = 2"
  proof (cases "convert_to_cv2 a")
    case (Some b)
    from convert_to_cv2_Some [OF this] that show ?thesis by auto
  qed simp
  moreover have "cv2_cvtColor a COLOR_RGB2BGR = Inl CvError" if "length (shape a) = 2"
  proof (cases "cv2_cvtColor a COLOR_RGB2BGR")
    case (Inr b)
    from cvtColor_Inr [OF this] that show ?thesis by auto
  next
    case (Inl e)
    then show ?thesis by (cases e) (auto simp: cv2_cvtColor_def split: list.splits if_splits)
  qed
  moreover have "length (shape a) = 3 \<and> (shape a ! 2 = 3 \<or> shape a ! 2 = 4) \<and>
      shape b = [shape a ! 0, shape a ! 1, 3]" if "convert_to_cv2 a = Some b" for b
    using convert_to_cv2_Some [OF that] by auto
  ultimately show ?thesis by blast
qed

theorem convert_to_cv2_channels_witness:
  "length (shape \<lparr>shape = [2, 1], data = [[7], [9]]\<rparr>) = 2 \<and>
   convert_to_cv2 \<lparr>shape = [2, 1], data = [[7], [9]]\<rparr> = None \<and>
   convert_to_cv2 \<lparr>shape = [1, 1, 3], data = [[1, 2, 3]]\<rparr>
     = Some \<lparr>shape = [1, 1, 3], data = [[3, 2, 1]]\<rparr>"
proof -
  have "convert_to_cv2 \<lparr>shape = [1, 1, 3], data = [[1, 2, 3]]\<rparr>
     = Some \<lparr>shape = [1, 1, 3], data = [[3, 2, 1]]\<rparr>"
    by (simp add: convert_to_cv2_def cv2_cvtColor_def)
  then show ?thesis
    using convert_to_cv2_channels [of "\<lparr>shape = [2, 1], data = [[7], [9]]\<rparr>"]
      convert_to_cv2_channels [of "\<lparr>shape = [1, 1, 3], data = [[1, 2, 3]]\<rparr>"]
    by simp
qed

text \<open>
  C5. For every 3-channel bitmap the Grayscale transform returns a single-channel (2-D)
  bitmap of the same height and width. For an input of one gray colour \<open>(v, v, v)\<close>, the
  100 by 100 mid-gray one among them, every output sample is exactly the luma-weighted
  value of that colour.
\<close>

theorem grayscale_single_channel:
  assumes "shape B = [h, w, 3]" "0 < h" "0 < w"
  shows "\<exists>G. process_image L B ''Grayscale'' p lo hi cq jq = Some (G, G) \<and>
              shape G = [h, w] \<and>
              (\<forall>v. data B = replicate (h * w) [v, v, v] \<longrightarrow>
                   data G = replicate (h * w) [luma_weighted v v v])"
  using assms
  by (simp add: process_image_def cvtColor_canonical gray_of_solid luma_weighted_solid)

theorem grayscale_single_channel_witness:
  "\<exists>G. process_image blank_lib \<lparr>shape = [100, 100, 3], data = replicate (100 * 100) [128, 128, 128]\<rparr>
          ''Grayscale'' 100 100 200 6 85 = Some (G, G) \<and>
       shape G = [100, 100] \<and>
       data G = replicate (100 * 100) [luma_weighted 128 128 128]"
proof -
  let ?B = "\<lparr>shape = [100, 100, 3], data = replicate (100 * 100) [128, 128, 128 :: uint8]\<rparr>"
  have "shape ?B = [100, 100, 3]" "data ?B = replicate (100 * 100) [128, 128, 128]"
    "(0::nat) < 100"
    by simp_all
  from grayscale_single_channel [OF this(1) this(3) this(3), of blank_lib 100 100 200 6 85] this(2)
  show ?thesis by blast
qed

text \<open>
  C3. With \<^verbatim>\<open>resize_percent == 100\<close> the Resize transform is the identity on a bitmap:
  it returns the input bitmap itself, neither resampled nor re-encoded (the second
  component is the RGB copy for the display).
\<close>

theorem resize_100_identity:
  assumes "shape B = [h, w, 3]" "0 < h" "0 < w"
  shows "process_image L B ''Resized'' 100 lo hi cq jq =
           Some (B, \<lparr>shape = [h, w, 3], data = map (cvt_pixel COLOR_BGR2RGB) (data B)\<rparr>)"
  using assms by (simp add: process_image_def cvtColor_canonical)

theorem resize_100_identity_witness:
  "process_image blank_lib \<lparr>shape = [1, 2, 3], data = [[1, 2, 3], [4, 5, 6]]\<rparr>
     ''Resized'' 100 100 200 6 85
   = Some (\<lparr>shape = [1, 2, 3], data = [[1, 2, 3], [4, 5, 6]]\<rparr>,
           \<lparr>shape = [1, 2, 3], data = [[3, 2, 1], [6, 5, 4]]\<rparr>)"
  using resize_100_identity [of "\<lparr>shape = [1, 2, 3], data = [[1, 2, 3], [4, 5, 6]]\<rparr>" 1 2
      blank_lib 100 200 6 85]
  by simp

text \<open>
  C2, as the claim states it, fails: a 5 by 5 bitmap at 10 percent has the target size
  0 by 0, the resize raises, and the transform returns no bitmap.
\<close>

theorem resize_small_counterexample:
  "process_image blank_lib \<lparr>shape = [5, 5, 3], data = replicate 25 [7, 7, 7]\<rparr>
     ''Resized'' 10 100 200 6 85 = None"
  by (simp add: process_image_def py_int_quot_def cv2_resize_def)

text \<open>
  C2, amended. For a bitmap of positive height and width and a percentage from 10 to 200
  other than 100: every bitmap that the Resize transform returns has the width
  \<open>\<lfloor>w * p / 100\<rfloor>\<close> and the height \<open>\<lfloor>h * p / 100\<rfloor>\<close>, both at least 1; when either
  of the two is 0 the transform returns no bitmap; when both are at least 1 and the JPEG
  codec encodes and decodes the resampled bitmap, the transform returns a bitmap.
\<close>

theorem resize_dimensions:
  assumes "shape B = [h, w, 3]" "0 < h" "0 < w" "10 \<le> p" "p \<le> 200" "p \<noteq> 100"
  shows "(\<forall>out d. process_image L B ''Resized'' p lo hi cq jq = Some (out, d) \<longrightarrow>
            0 < int h * p div 100 \<and> 0 < int w * p div 100 \<and>
            shape out = [nat (int h * p div 100), nat (int w * p div 100), 3]) \<and>
         (int h * p div 100 = 0 \<or> int w * p div 100 = 0 \<longrightarrow>
            process_image L B ''Resized'' p lo hi cq jq = None) \<and>
         (\<forall>bs px. 0 < int h * p div 100 \<and> 0 < int w * p div 100 \<and>
            jpeg_payload L
              \<lparr>shape = [nat (int h * p div 100), nat (int w * p div 100), 3],
               data = area_px L B (nat (int w * p div 100)) (nat (int h * p div 100))\<rparr> jq
              = Some bs \<and>
            jpeg_samples L
              \<lparr>jb_height = nat (int h * p div 100), jb_width = nat (int w * p div 100),
               jb_payload = bs\<rparr> = Some px \<longrightarrow>
            process_image L B ''Resized'' p lo hi cq jq =
              Some (\<lparr>shape = [nat (int h * p div 100), nat (int w * p div 100), 3], data = px\<rparr>,
                    \<lparr>shape = [nat (int h * p div 100), nat (int w * p div 100), 3],
                     data = map (cvt_pixel COLOR_BGR2RGB) px\<rparr>))"
proof -
  have q: "py_int_quot (int n * p) 100 = int n * p div 100" for n
    using assms(4) by (simp add: py_int_quot_def)
  have "0 < int h * p div 100 \<and> 0 < int w * p div 100 \<and>
        shape out = [nat (int h * p div 100), nat (int w * p div 100), 3]"
    if "process_image L B ''Resized'' p lo hi cq jq = Some (out, d)" for out d
  proof -
    from process_resized_Some [OF assms(6) that] obtain resized encoded where
      r: "cv2_resize L B (int w * p div 100, int h * p div 100) = Inr resized" and
      e: "cv2_imencode_jpg L resized jq = Inr encoded" and
      o: "cv2_imdecode_color L encoded = Some out"
      using assms(1) by (auto simp: q)
    from resize_Inr [OF r] assms(1) have
      pos: "0 < int w * p div 100" "0 < int h * p div 100" and
      sr: "shape resized = [nat (int h * p div 100), nat (int w * p div 100), 3]"
      by auto
    from imencode_Inr [OF e] sr imdecode_Some [OF o] pos show ?thesis by simp
  qed
  moreover have "process_image L B ''Resized'' p lo hi cq jq = None"
    if "int h * p div 100 = 0 \<or> int w * p div 100 = 0"
    using that assms(1,6) by (auto simp: process_image_def q cv2_resize_def)
  moreover have "process_image L B ''Resized'' p lo hi cq jq =
              Some (\<lparr>shape = [nat (int h * p div 100), nat (int w * p div 100), 3], data = px\<rparr>,
                    \<lparr>shape = [nat (int h * p div 100), nat (int w * p div 100), 3],
                     data = map (cvt_pixel COLOR_BGR2RGB) px\<rparr>)"
    if pos: "0 < int h * p div 100" "0 < int w * p div 100"
      and enc: "jpeg_payload L
              \<lparr>shape = [nat (int h * p div 100), nat (int w * p div 100), 3],
               data = area_px L B (nat (int w * p div 100)) (nat (int h * p div 100))\<rparr> jq
              = Some bs"
      and dec: "jpeg_samples L
              \<lparr>jb_height = nat (int h * p div 100), jb_width = nat (int w * p div 100),
               jb_payload = bs\<rparr> = Some px"
    for bs px
  proof -
    let ?R = "\<lparr>shape = [nat (int h * p div 100), nat (int w * p div 100), 3],
               data = area_px L B (nat (int w * p div 100)) (nat (int h * p div 100))\<rparr>"
    let ?E = "\<lparr>jb_height = nat (int h * p div 100), jb_width = nat (int w * p div 100),
               jb_payload = bs\<rparr>"
    let ?O = "\<lparr>shape = [nat (int h * p div 100), nat (int w * p div 100), 3], data = px\<rparr>"
    have r: "cv2_resize L B (int w * p div 100, int h * p div 100) = Inr ?R"
      using assms(1-3) pos by (simp add: cv2_resize_def)
    have e: "cv2_imencode_jpg L ?R jq = Inr ?E"
      using pos enc by (simp add: cv2_imencode_jpg_def)
    have o: "cv2_imdecode_color L ?E = Some ?O"
      using dec by (simp add: cv2_imdecode_color_def)
    have c: "cv2_cvtColor ?O COLOR_BGR2RGB =
        Inr \<lparr>shape = [nat (int h * p div 100), nat (int w * p div 100), 3],
             data = map (cvt_pixel COLOR_BGR2RGB) px\<rparr>"
      using pos by (simp add: cvtColor_canonical)
    show ?thesis
      using assms(1,6) by (simp add: process_image_def q r e o c)
  qed
  ultimately show ?thesis by blast
qed

theorem resize_dimensions_witness:
  "process_image blank_lib \<lparr>shape = [5, 4, 3], data = replicate 20 [7, 7, 7]\<rparr>
      ''Resized'' 50 100 200 6 85
     = Some (\<lparr>shape = [2, 2, 3], data = replicate 4 [0, 0, 0]\<rparr>,
             \<lparr>shape = [2, 2, 3], data = replicate 4 [0, 0, 0]\<rparr>) \<and>
   [nat (int 5 * 50 div 100), nat (int 4 * 50 div 100), 3] = [2, 2, 3::nat] \<and>
   int 5 * 10 div 100 = 0 \<and>
   process_image blank_lib \<lparr>shape = [5, 4, 3], data = replicate 20 [7, 7, 7]\<rparr>
      ''Resized'' 10 100 200 6 85 = None"
proof -
  let ?B = "\<lparr>shape = [5, 4, 3], data = replicate 20 [7, 7, 7 :: uint8]\<rparr>"
  have h: "shape ?B = [5, 4, 3]" "(0::nat) < 5" "(0::nat) < 4"
    "(10::int) \<le> 50" "(50::int) \<le> 200" "(50::int) \<noteq> 100"
    "(10::int) \<le> 10" "(10::int) \<le> 200" "(10::int) \<noteq> 100"
    by simp_all
  have z: "int 5 * 10 div 100 = 0" by simp
  from resize_dimensions [OF h(1-3) h(7-9), of blank_lib 100 200 6 85] z
  have n: "process_image blank_lib ?B ''Resized'' 10 100 200 6 85 = None"
    by blast
  from resize_dimensions [OF h(1-6), of blank_lib 100 200 6 85] resize_run
  have "shape \<lparr>shape = [2, 2, 3], data = replicate 4 [0, 0, 0 :: uint8]\<rparr>
          = [nat (int 5 * 50 div 100), nat (int 4 * 50 div 100), 3]"
    by blast
  then show ?thesis using n z resize_run by simp
qed

text \<open>
  C4, as the claim states it, fails: a 3 by 3 bitmap at 20 percent has the target size
  0 by 0, nothing is resampled, encoded or decoded, and the transform returns no bitmap.
\<close>

theorem resize_no_decoded_counterexample:
  "process_image blank_lib \<lparr>shape = [3, 3, 3], data = replicate 9 [7, 7, 7]\<rparr>
     ''Resized'' 20 100 200 6 85 = None"
  by (simp add: process_image_def py_int_quot_def cv2_resize_def)

text \<open>
  C4, amended. For every 3-channel bitmap and every percentage other than 100: when the
  target width \<^verbatim>\<open>int(w * p / 100)\<close> and the target height \<^verbatim>\<open>int(h * p / 100)\<close> are both
  at least 1, the Resize transform resamples the bitmap by area averaging to that size,
  encodes the resampled bitmap as JPEG at \<^verbatim>\<open>jpeg_quality\<close>, decodes that stream, and
  returns the decoded bitmap (with its RGB copy), never the resampled one; it returns no
  bitmap only if the codec fails. When either target dimension is below 1, it returns no
  bitmap.
\<close>

theorem resize_returns_decoded:
  assumes "shape B = [h, w, 3]" "0 < h" "0 < w" "p \<noteq> 100"
  shows "(0 < py_int_quot (int w * p) 100 \<and> 0 < py_int_quot (int h * p) 100 \<longrightarrow>
           (\<exists>resized.
              cv2_resize L B (py_int_quot (int w * p) 100, py_int_quot (int h * p) 100)
                = Inr resized \<and>
              data resized = area_px L B (nat (py_int_quot (int w * p) 100))
                                         (nat (py_int_quot (int h * p) 100)) \<and>
              process_image L B ''Resized'' p lo hi cq jq =
                (case cv2_imencode_jpg L resized jq of
                   Inl e \<Rightarrow> None
                 | Inr encoded \<Rightarrow>
                     (case cv2_imdecode_color L encoded of
                        None \<Rightarrow> None
                      | Some out \<Rightarrow>
                          Some (out, \<lparr>shape = shape out,
                                      data = map (cvt_pixel COLOR_BGR2RGB) (data out)\<rparr>))))) \<and>
         (py_int_quot (int w * p) 100 < 1 \<or> py_int_quot (int h * p) 100 < 1 \<longrightarrow>
            process_image L B ''Resized'' p lo hi cq jq = None)"
proof -
  let ?W = "py_int_quot (int w * p) 100" and ?H = "py_int_quot (int h * p) 100"
  let ?R = "\<lparr>shape = [nat ?H, nat ?W, 3], data = area_px L B (nat ?W) (nat ?H)\<rparr>"
  have small: "process_image L B ''Resized'' p lo hi cq jq = None" if "?W < 1 \<or> ?H < 1"
    using that assms(1,4) by (auto simp: process_image_def cv2_resize_def)
  have big: "cv2_resize L B (?W, ?H) = Inr ?R \<and>
      process_image L B ''Resized'' p lo hi cq jq =
        (case cv2_imencode_jpg L ?R jq of
           Inl e \<Rightarrow> None
         | Inr encoded \<Rightarrow>
             (case cv2_imdecode_color L encoded of
                None \<Rightarrow> None
              | Some out \<Rightarrow>
                  Some (out, \<lparr>shape = shape out,
                              data = map (cvt_pixel COLOR_BGR2RGB) (data out)\<rparr>)))"
    if pos: "0 < ?W" "0 < ?H"
  proof -
    have r: "cv2_resize L B (?W, ?H) = Inr ?R"
      using assms(1-3) pos by (simp add: cv2_resize_def)
    have c: "cv2_cvtColor out COLOR_BGR2RGB =
        Inr \<lparr>shape = shape out, data = map (cvt_pixel COLOR_BGR2RGB) (data out)\<rparr>"
      if e: "cv2_imencode_jpg L ?R jq = Inr encoded"
        and o: "cv2_imdecode_color L encoded = Some out" for encoded out
    proof -
      from imencode_Inr [OF e] imdecode_Some [OF o]
      have "shape out = [nat ?H, nat ?W, 3]" by simp
      with pos show ?thesis by (simp add: cvtColor_canonical)
    qed
    have "process_image L B ''Resized'' p lo hi cq jq =
        (case cv2_imencode_jpg L ?R jq of
           Inl e \<Rightarrow> None
         | Inr encoded \<Rightarrow>
             (case cv2_imdecode_color L encoded of
                None \<Rightarrow> None
              | Some out \<Rightarrow>
                  Some (out, \<lparr>shape = shape out,
                              data = map (cvt_pixel COLOR_BGR2RGB) (data out)\<rparr>)))"
      using assms(1,4) c by (simp add: process_image_def r split: sum.splits option.splits)
    with r show ?thesis by simp
  qed
  show ?thesis
  proof (intro conjI impI)
    assume "0 < ?W \<and> 0 < ?H"
    with big show "\<exists>resized. cv2_resize L B (?W, ?H) = Inr resized \<and>
        data resized = area_px L B (nat ?W) (nat ?H) \<and>
        process_image L B ''Resized'' p lo hi cq jq =
          (case cv2_imencode_jpg L resized jq of
             Inl e \<Rightarrow> None
           | Inr encoded \<Rightarrow>
               (case cv2_imdecode_color L encoded of
                  None \<Rightarrow> None
                | Some out \<Rightarrow>
                    Some (out, \<lparr>shape = shape out,
                                data = map (cvt_pixel COLOR_BGR2RGB) (data out)\<rparr>)))"
      by (intro exI [of _ ?R]) simp
  next
    assume "?W < 1 \<or> ?H < 1"
    then show "process_image L B ''Resized'' p lo hi cq jq = None" by (rule small)
  qed
qed

theorem resize_returns_decoded_witness:
  "process_image blank_lib \<lparr>shape = [5, 4, 3], data = replicate 20 [7, 7, 7]\<rparr>
      ''Resized'' 50 100 200 6 85
     = Some (\<lparr>shape = [2, 2, 3], data = replicate 4 [0, 0, 0]\<rparr>,
             \<lparr>shape = [2, 2, 3], data = replicate 4 [0, 0, 0]\<rparr>) \<and>
   cv2_imdecode_color blank_lib \<lparr>jb_height = 2, jb_width = 2, jb_payload = [85]\<rparr>
     = Some \<lparr>shape = [2, 2, 3], data = replicate 4 [0, 0, 0]\<rparr> \<and>
   py_int_quot (int 4 * 10) 100 < 1 \<and>
   process_image blank_lib \<lparr>shape = [5, 4, 3], data = replicate 20 [7, 7, 7]\<rparr>
      ''Resized'' 10 100 200 6 85 = None"
proof -
  let ?B = "\<lparr>shape = [5, 4, 3], data = replicate 20 [7, 7, 7 :: uint8]\<rparr>"
  let ?R = "\<lparr>shape = [2, 2, 3], data = replicate 4 [0, 0, 0 :: uint8]\<rparr>"
  have h: "shape ?B = [5, 4, 3]" "(0::nat) < 5" "(0::nat) < 4"
    by simp_all
  have z: "py_int_quot (int 4 * 10) 100 < 1"
    by (simp add: py_int_quot_def)
  have q: "py_int_quot (int 4 * 50) 100 = 2" "py_int_quot (int 5 * 50) 100 = 2"
    by (simp_all add: py_int_quot_def)
  have "(10::int) \<noteq> 100" by simp
  from resize_returns_decoded [OF h this, of blank_lib 100 200 6 85] z
  have n: "process_image blank_lib ?B ''Resized'' 10 100 200 6 85 = None"
    by blast
  have "(50::int) \<noteq> 100" by simp
  from resize_returns_decoded [OF h this, of blank_lib 100 200 6 85]
  obtain resized where
    r: "cv2_resize blank_lib ?B (2, 2) = Inr resized" and
    p: "process_image blank_lib ?B ''Resized'' 50 100 200 6 85 =
          (case cv2_imencode_jpg blank_lib resized 85 of
             Inl e \<Rightarrow> None
           | Inr encoded \<Rightarrow>
               (case cv2_imdecode_color blank_lib encoded of
                  None \<Rightarrow> None
                | Some out \<Rightarrow>
                    Some (out, \<lparr>shape = shape out,
                                data = map (cvt_pixel COLOR_BGR2RGB) (data out)\<rparr>)))"
    unfolding q by auto
  from r have "resized = ?R"
    by (simp only: resize_run_steps(1) sum.inject)
  with p have "process_image blank_lib ?B ''Resized'' 50 100 200 6 85 = Some (?R, ?R)"
    by (simp add: resize_run_steps(2,3))
  then show ?thesis
    using n z resize_run_steps(3) by simp
qed

text \<open>
  C10. With a percentage other than 100, a bitmap that the Resize transform returns has
  exactly 3 channels, so the encoder for the download takes its 3-channel branch: it
  writes a JPEG at \<^verbatim>\<open>jpeg_quality\<close> from the RGB copy of the bitmap, whatever the input
  was and whatever the quality and compression settings are.
\<close>

theorem resized_three_channels:
  assumes "p \<noteq> 100" "process_image L B ''Resized'' p lo hi cq jq = Some (out, d)"
  shows "length (shape out) = 3 \<and> shape out ! 2 = 3 \<and>
         encode_processed L out cq' jq' =
           (case pil_jpeg L d jq' True of
              None \<Rightarrow> Inl OSError
            | Some buf \<Rightarrow> Inr (JPEG, buf))"
proof -
  from process_resized_Some [OF assms] obtain encoded where
    o: "cv2_imdecode_color L encoded = Some out" and
    d: "cv2_cvtColor out COLOR_BGR2RGB = Inr d"
    by blast
  from imdecode_Some [OF o] have s: "shape out = [jb_height encoded, jb_width encoded, 3]" .
  then show ?thesis
    using d by (simp add: encode_processed_def pil_save_def kw_bool_def kw_int_def
        split: option.splits)
qed

theorem resized_three_channels_witness:
  "length (shape \<lparr>shape = [2, 2, 3], data = replicate 4 [0, 0, 0 :: uint8]\<rparr>) = 3 \<and>
   encode_processed blank_lib \<lparr>shape = [2, 2, 3], data = replicate 4 [0, 0, 0]\<rparr> 6 85
     = Inr (JPEG, [85])"
proof -
  have "(50::int) \<noteq> 100" by simp
  from resized_three_channels [OF this resize_run, of 6 85] show ?thesis
    by (simp add: blank_lib_def)
qed

text \<open>
  C7. For every 3-channel bitmap and thresholds that are not negative, the edge detection
  is the pipeline of three steps: the gray conversion, the Gaussian filter with the kernel
  size (5, 5) and sigma passed as 0, and the Canny detector with \<^verbatim>\<open>edge_low\<close> and
  \<^verbatim>\<open>edge_high\<close> as its two thresholds. The result is single-channel, of the height and
  width of the input, every sample of it is 0 or 255, and the result of an input of one
  colour is all zero.
\<close>

theorem edge_detection_pipeline:
  assumes "shape B = [h, w, 3]" "0 < h" "0 < w" "0 \<le> lo" "0 \<le> hi"
  shows "\<exists>gray blurred E.
           cv2_cvtColor B COLOR_BGR2GRAY = Inr gray \<and>
           cv2_GaussianBlur L gray (5, 5) 0 = Inr blurred \<and>
           cv2_Canny L blurred lo hi = Inr E \<and>
           process_image L B ''Edge Detection'' p lo hi cq jq = Some (E, E) \<and>
           shape E = [h, w] \<and> length (data E) = h * w \<and>
           (\<forall>px \<in> set (data E). px = [0] \<or> px = [255]) \<and>
           (\<forall>c. data B = replicate (h * w) c \<longrightarrow> data E = replicate (h * w) [0])"
proof -
  let ?gray = "\<lparr>shape = [h, w], data = map (cvt_pixel COLOR_BGR2GRAY) (data B)\<rparr>"
  let ?blurred = "\<lparr>shape = [h, w], data = grid h w (\<lambda>y x. [blur5_at ?gray y x])\<rparr>"
  let ?edge = "\<lambda>y x. if min lo hi < grad_mag ?blurred y x \<and> canny_keeps L ?blurred lo hi y x
                      then [255] else [0::uint8]"
  let ?E = "\<lparr>shape = [h, w], data = grid h w ?edge\<rparr>"
  have g: "cv2_cvtColor B COLOR_BGR2GRAY = Inr ?gray"
    using assms(1-3) by (simp add: cvtColor_canonical)
  have b: "cv2_GaussianBlur L ?gray (5, 5) 0 = Inr ?blurred"
    using assms(2,3) by (simp add: cv2_GaussianBlur_def)
  have c: "cv2_Canny L ?blurred lo hi = Inr ?E"
    using assms(2,3) by (simp add: cv2_Canny_def)
  have p: "process_image L B ''Edge Detection'' p lo hi cq jq = Some (?E, ?E)"
    by (simp add: process_image_def g b c)
  have len: "length (data ?E) = h * w"
    by (simp add: grid_def)
  have bin: "\<forall>px \<in> set (data ?E). px = [0] \<or> px = [255]"
    by (auto dest!: set_grid)
  have zero: "data ?E = replicate (h * w) [0]" if u: "data B = replicate (h * w) c" for c
  proof -
    let ?g = "gray_of (c ! 0) (c ! 1) (c ! 2)"
    have dg: "data ?gray = replicate (h * w) [?g]"
      by (simp add: u)
    have "blur5_at ?gray y x = ?g" for y x
      using dg assms(2,3) by (intro blur5_at_solid [of ?gray h w]) simp_all
    then have db: "data ?blurred = replicate (h * w) [?g]"
      by (simp add: grid_const)
    have "grad_mag ?blurred y x = 0" for y x
      using db assms(2,3) by (intro grad_mag_solid [of ?blurred h w ?g]) simp_all
    then have "?edge = (\<lambda>y x. [0])"
      using assms(4,5) by (simp add: fun_eq_iff min_less_iff_disj)
    then show ?thesis
      by (simp add: grid_const)
  qed
  show ?thesis
    using g b c p len bin zero
    by (intro exI [of _ ?gray] exI [of _ ?blurred] exI [of _ ?E]) simp
qed

theorem edge_detection_pipeline_witness:
  "process_image blank_lib \<lparr>shape = [1, 3, 3], data = replicate (1 * 3) [10, 20, 30]\<rparr>
       ''Edge Detection'' 100 100 200 6 85
     = Some (\<lparr>shape = [1, 3], data = replicate (1 * 3) [0]\<rparr>,
             \<lparr>shape = [1, 3], data = replicate (1 * 3) [0]\<rparr>) \<and>
   process_image blank_lib \<lparr>shape = [1, 3, 3], data = [[0, 0, 0], [0, 0, 0], [255, 255, 255]]\<rparr>
       ''Edge Detection'' 100 200 250 6 85
     = Some (\<lparr>shape = [1, 3], data = [[0], [255], [0]]\<rparr>,
             \<lparr>shape = [1, 3], data = [[0], [255], [0]]\<rparr>)"
proof -
  let ?B = "\<lparr>shape = [1, 3, 3], data = replicate (1 * 3) [10, 20, 30 :: uint8]\<rparr>"
  have h: "shape ?B = [1, 3, 3]" "(0::nat) < 1" "(0::nat) < 3" "(0::int) \<le> 100" "(0::int) \<le> 200"
    by simp_all
  from edge_detection_pipeline [OF h, of blank_lib 100 6 85] obtain E where
    e: "process_image blank_lib ?B ''Edge Detection'' 100 100 200 6 85 = Some (E, E)"
      "shape E = [1, 3]"
      "\<forall>c. data ?B = replicate (1 * 3) c \<longrightarrow> data E = replicate (1 * 3) [0]"
    by blast
  from e(3) have "data E = replicate (1 * 3) [0]"
    by (simp only: ndarray.select_convs simp_thms)
  with e(2) have "E = \<lparr>shape = [1, 3], data = replicate (1 * 3) [0]\<rparr>"
    by (cases E) simp
  with e(1) show ?thesis
    using edge_run_step by (simp only: simp_thms)
qed

text \<open>
  C1, as the claim states it, fails: with an original size of 0, that is for an empty
  upload, no sentinel is reported. The file cannot be opened, the run ends with the load
  error, and no size report of any kind is made.
\<close>

theorem size_report_no_sentinel_counterexample:
  "main blank_lib (Some [])
     \<lparr>transform_option = ''Grayscale'', resize_percent = 100, edge_low = 100,
      edge_high = 200, compression_quality = 6, jpeg_quality = 85\<rparr> = LoadFailed"
  by (simp add: main_def load_image_def Image_open_def)

text \<open>
  C1, amended. With an original size of 0 nothing raises and the division is not
  performed, but no sentinel is reported either: the run ends with the load error before
  any size report. A size report is shown only for an original size that is not 0, and the
  reduction in it is (original - processed) / original * 100.
\<close>

theorem size_report_nonzero_original:
  "main L (Some []) c = LoadFailed \<and>
   (\<forall>bs pg. main L (Some bs) c = Done pg \<longrightarrow>
      bs \<noteq> [] \<and>
      processed_size pg = of_nat (length (dl_data (download pg))) / (1024 * 1024) \<and>
      reduction pg =
        (of_nat (length bs) / (1024 * 1024) - processed_size pg)
          / (of_nat (length bs) / (1024 * 1024)) * 100)"
proof -
  have e: "main L (Some []) c = LoadFailed"
    by (simp add: main_def load_image_def Image_open_def)
  have r: "bs \<noteq> [] \<and>
      processed_size pg = of_nat (length (dl_data (download pg))) / (1024 * 1024) \<and>
      reduction pg =
        (of_nat (length bs) / (1024 * 1024) - processed_size pg)
          / (of_nat (length bs) / (1024 * 1024)) * 100"
    if "main L (Some bs) c = Done pg" for bs pg
  proof -
    from main_Done [OF that] have
      s: "size_reduction (of_nat (length bs) / (1024 * 1024))
            (get_file_size (dl_data (download pg))) = Inr (reduction pg)" and
      p: "processed_size pg = get_file_size (dl_data (download pg))"
      by auto
    from that e have "bs \<noteq> []"
      by auto
    moreover from s p have "reduction pg =
        (of_nat (length bs) / (1024 * 1024) - processed_size pg)
          / (of_nat (length bs) / (1024 * 1024)) * 100"
      by (auto simp: size_reduction_def py_truediv_def split: if_splits)
    ultimately show ?thesis using p by (simp add: get_file_size_def)
  qed
  show ?thesis using e r by blast
qed

theorem size_report_nonzero_original_witness:
  "main blank_lib (Some [10, 20, 30])
     \<lparr>transform_option = ''Grayscale'', resize_percent = 100, edge_low = 100,
      edge_high = 200, compression_quality = 0, jpeg_quality = 85\<rparr>
   = Done \<lparr>display_img = \<lparr>shape = [1, 1], data = [[gray_of 30 20 10]]\<rparr>, saved_as = PNG,
           processed_size = 1 / 1048576, reduction = 200 / 3,
           download = \<lparr>dl_data = [9], file_name = ''processed_grayscale.jpg'',
                       mime = ''image/jpeg''\<rparr>\<rparr> \<and>
   (200 / 3 :: rat) = (of_nat (length [10, 20, 30 :: uint8]) / (1024 * 1024) - 1 / 1048576)
          / (of_nat (length [10, 20, 30 :: uint8]) / (1024 * 1024)) * 100 \<and>
   main blank_lib (Some [])
     \<lparr>transform_option = ''Grayscale'', resize_percent = 100, edge_low = 100,
      edge_high = 200, compression_quality = 0, jpeg_quality = 85\<rparr> = LoadFailed"
proof -
  let ?c = "\<lparr>transform_option = ''Grayscale'', resize_percent = 100, edge_low = 100,
      edge_high = 200, compression_quality = 0, jpeg_quality = 85\<rparr>"
  from size_report_nonzero_original [of blank_lib ?c] have
    l: "main blank_lib (Some []) ?c = LoadFailed"
    by blast
  from size_report_nonzero_original [of blank_lib ?c] main_grayscale_run
  have "(200 / 3 :: rat) = (of_nat (length [10, 20, 30 :: uint8]) / (1024 * 1024) - 1 / 1048576)
          / (of_nat (length [10, 20, 30 :: uint8]) / (1024 * 1024)) * 100"
    by (metis page.select_convs(3,4))
  then show ?thesis using l main_grayscale_run by simp
qed

text \<open>
  C6. The encoder for the download dispatches on the channel count. A 2-D bitmap is
  written as PNG, but at zlib level 9 for every value of \<^verbatim>\<open>compression_quality\<close>: the
  call passes it under the keyword \<^verbatim>\<open>compression_level\<close>, which the PNG writer does not
  read, together with \<^verbatim>\<open>optimize=True\<close>. A 3-channel bitmap is converted to RGB and
  written as JPEG at \<^verbatim>\<open>jpeg_quality\<close>.
\<close>

theorem encoder_dispatch:
  "(length (shape g) = 2 \<longrightarrow>
      encode_processed L g cq jq = Inr (PNG, pil_png L g 9) \<and>
      encode_processed L g cq jq = encode_processed L g cq' jq) \<and>
   (shape g = [h, w, 3] \<and> 0 < h \<and> 0 < w \<longrightarrow>
      encode_processed L g cq jq =
        (case pil_jpeg L \<lparr>shape = [h, w, 3], data = map (cvt_pixel COLOR_BGR2RGB) (data g)\<rparr>
                jq True of
           None \<Rightarrow> Inl OSError
         | Some buf \<Rightarrow> Inr (JPEG, buf)))"
  by (auto simp: encode_processed_2d encode_processed_def cvtColor_canonical pil_save_def
      kw_bool_def kw_int_def split: option.splits)

theorem encoder_dispatch_witness:
  "encode_processed blank_lib \<lparr>shape = [1, 1], data = [[7]]\<rparr> 0 85 = Inr (PNG, [9]) \<and>
   encode_processed blank_lib \<lparr>shape = [1, 1], data = [[7]]\<rparr> 0 85
     = encode_processed blank_lib \<lparr>shape = [1, 1], data = [[7]]\<rparr> 9 85 \<and>
   encode_processed blank_lib \<lparr>shape = [1, 1, 3], data = [[1, 2, 3]]\<rparr> 0 85 = Inr (JPEG, [85])"
proof -
  let ?g = "\<lparr>shape = [1, 1], data = [[7 :: uint8]]\<rparr>"
  let ?c = "\<lparr>shape = [1, 1, 3], data = [[1, 2, 3 :: uint8]]\<rparr>"
  have p: "pil_png blank_lib ?g 9 = [9]"
    by (simp add: blank_lib_def)
  have j: "pil_jpeg blank_lib \<lparr>shape = [1, 1, 3], data = [[3, 2, 1]]\<rparr> 85 True = Some [85]"
    by (simp add: blank_lib_def)
  have l: "length (shape ?g) = 2" by simp
  from encoder_dispatch [of ?g blank_lib 0 85 9 1 1] l
  have a: "encode_processed blank_lib ?g 0 85 = Inr (PNG, pil_png blank_lib ?g 9)"
    "encode_processed blank_lib ?g 0 85 = encode_processed blank_lib ?g 9 85"
    by blast+
  from encoder_dispatch [of ?c blank_lib 0 85 9 1 1]
  have b: "encode_processed blank_lib ?c 0 85 =
      (case pil_jpeg blank_lib \<lparr>shape = [1, 1, 3], data = [[3, 2, 1]]\<rparr> 85 True of
         None \<Rightarrow> Inl OSError | Some buf \<Rightarrow> Inr (JPEG, buf))"
    by simp
  have x: "encode_processed blank_lib ?g 0 85 = Inr (PNG, [9])"
    using a(1) p by (simp only:)
  have y: "encode_processed blank_lib ?g 9 85 = Inr (PNG, [9])"
    using a(2) x by (simp only:)
  have z: "encode_processed blank_lib ?c 0 85 = Inr (JPEG, [85])"
    using b j by (simp only: option.case)
  show ?thesis
    unfolding x y z by simp
qed

text \<open>
  C8. Whenever the page offers a download, the file is named
  \<^verbatim>\<open>processed_\<close> followed by the transform option in lower case and \<^verbatim>\<open>.jpg\<close>, and its
  MIME type is \<^verbatim>\<open>image/jpeg\<close>, whatever format was written: the results of the
  Grayscale and Edge Detection options are PNG files and are named and typed so as well.
\<close>

theorem download_named_jpg:
  assumes "main L up c = Done pg"
  shows "file_name (download pg) = ''processed_'' @ py_lower (transform_option c) @ ''.jpg'' \<and>
         mime (download pg) = ''image/jpeg'' \<and>
         (transform_option c = ''Grayscale'' \<or> transform_option c = ''Edge Detection''
            \<longrightarrow> saved_as pg = PNG)"
proof (cases up)
  case None
  with assms show ?thesis by (simp add: main_def)
next
  case (Some bs)
  with assms have m: "main L (Some bs) c = Done pg" by simp
  from main_Done [OF m] obtain cv2_image processed_img where
    pr: "process_image L cv2_image (transform_option c) (resize_percent c)
             (edge_low c) (edge_high c) (compression_quality c) (jpeg_quality c)
             = Some (processed_img, display_img pg)" and
    en: "encode_processed L processed_img (compression_quality c) (jpeg_quality c)
             = Inr (saved_as pg, dl_data (download pg))" and
    nm: "file_name (download pg) = ''processed_'' @ py_lower (transform_option c) @ ''.jpg''"
        "mime (download pg) = ''image/jpeg''"
    by auto
  have "saved_as pg = PNG"
    if "transform_option c = ''Grayscale'' \<or> transform_option c = ''Edge Detection''"
  proof -
    from that pr have "length (shape processed_img) = 2"
      by (auto dest: process_grayscale_Some process_edge_Some)
    from encode_processed_2d [OF this] en show ?thesis by simp
  qed
  with nm show ?thesis by blast
qed

theorem download_named_jpg_witness:
  "main blank_lib (Some [10, 20, 30])
     \<lparr>transform_option = ''Grayscale'', resize_percent = 100, edge_low = 100,
      edge_high = 200, compression_quality = 0, jpeg_quality = 85\<rparr>
   = Done \<lparr>display_img = \<lparr>shape = [1, 1], data = [[gray_of 30 20 10]]\<rparr>, saved_as = PNG,
           processed_size = 1 / 1048576, reduction = 200 / 3,
           download = \<lparr>dl_data = [9], file_name = ''processed_grayscale.jpg'',
                       mime = ''image/jpeg''\<rparr>\<rparr> \<and>
   ''processed_grayscale.jpg'' = ''processed_'' @ py_lower ''Grayscale'' @ ''.jpg''"
  using download_named_jpg [OF main_grayscale_run] main_grayscale_run
  by simp

end
